theory Spec2Isabelle
  imports Complex_Main "HOL-Library.Char_ord" "HOL-Library.List_Lexorder"
begin

section \<open>Python values, dictionaries and exceptions\<close>

text \<open>
  \<^verbatim>\<open>evaluate_signal(data: Dict[str, Any]) -> Dict[str, Any]\<close> of \<^verbatim>\<open>agent.py\<close> reads a
  dictionary of dynamically typed values. The values that a JSON body or the request
  schema of \<^verbatim>\<open>main.py.py\<close> can put there are \<^verbatim>\<open>None\<close>, booleans, integers, floats and
  strings. Floats are idealised as exact rationals: representation error, infinities and
  NaN are outside the model, and \<^verbatim>\<open>round\<close> and the \<^verbatim>\<open>.2f\<close> format round the exact value
  half-to-even, as Python does on the exact value of a float.
\<close>

datatype pyval = PNone | PBool bool | PInt int | PFloat rat | PStr string

type_synonym pydict = "string \<rightharpoonup> pyval"

text \<open>The exceptions the body of \<^verbatim>\<open>evaluate_signal\<close> can raise.\<close>

datatype py_error = KeyError | TypeError | AttributeError | ZeroDivisionError | UnboundLocalError

definition bindE :: "py_error + 'a \<Rightarrow> ('a \<Rightarrow> py_error + 'b) \<Rightarrow> py_error + 'b" where
  "bindE m f = (case m of Inl e \<Rightarrow> Inl e | Inr v \<Rightarrow> f v)"

text \<open>\<^verbatim>\<open>data[k]\<close> raises KeyError on an absent key; \<^verbatim>\<open>data.get(k, d)\<close> returns \<^verbatim>\<open>d\<close>.\<close>

definition py_getitem :: "pydict \<Rightarrow> string \<Rightarrow> py_error + pyval" where
  "py_getitem data k = (case data k of None \<Rightarrow> Inl KeyError | Some v \<Rightarrow> Inr v)"

definition py_get :: "pydict \<Rightarrow> string \<Rightarrow> pyval \<Rightarrow> pyval" where
  "py_get data k d = (case data k of None \<Rightarrow> d | Some v \<Rightarrow> v)"

text \<open>Truth value of an object in a condition (\<^verbatim>\<open>if candle_type:\<close>).\<close>

fun truthy :: "pyval \<Rightarrow> bool" where
  "truthy PNone = False"
| "truthy (PBool b) = b"
| "truthy (PInt i) = (i \<noteq> 0)"
| "truthy (PFloat x) = (x \<noteq> 0)"
| "truthy (PStr s) = (s \<noteq> [])"

text \<open>The numeric value of an object; \<^verbatim>\<open>bool\<close> is a subclass of \<^verbatim>\<open>int\<close>.\<close>

fun num_of :: "pyval \<Rightarrow> rat option" where
  "num_of PNone = None"
| "num_of (PBool b) = Some (if b then 1 else 0)"
| "num_of (PInt i) = Some (of_int i)"
| "num_of (PFloat x) = Some x"
| "num_of (PStr s) = None"

text \<open>
  An arithmetic operation or an ordering comparison with a numeric literal raises
  TypeError unless the operand is a number (\<^verbatim>\<open>rsi_4h <= 20\<close>, \<^verbatim>\<open>1.0 * atr\<close>,
  \<^verbatim>\<open>round(x, 5)\<close>).
\<close>

definition as_num :: "pyval \<Rightarrow> py_error + rat" where
  "as_num v = (case num_of v of None \<Rightarrow> Inl TypeError | Some x \<Rightarrow> Inr x)"

text \<open>\<^verbatim>\<open>a - b\<close>: defined on two numbers, TypeError otherwise.\<close>

definition py_sub :: "pyval \<Rightarrow> pyval \<Rightarrow> py_error + rat" where
  "py_sub a b = bindE (as_num a) (\<lambda>x. bindE (as_num b) (\<lambda>y. Inr (x - y)))"

text \<open>
  \<^verbatim>\<open>a > b\<close>: numbers compare by value, two strings lexicographically by code point,
  any other pair raises TypeError.
\<close>

definition py_gt :: "pyval \<Rightarrow> pyval \<Rightarrow> py_error + bool" where
  "py_gt a b =
     (case (num_of a, num_of b) of
        (Some x, Some y) \<Rightarrow> Inr (y < x)
      | _ \<Rightarrow> (case (a, b) of (PStr s, PStr t) \<Rightarrow> Inr (t < s) | _ \<Rightarrow> Inl TypeError))"

text \<open>\<^verbatim>\<open>s.lower()\<close> and \<^verbatim>\<open>s.upper()\<close> exist on strings only (AttributeError otherwise).\<close>

definition lower_char :: "char \<Rightarrow> char" where
  "lower_char c =
     (case map_of (zip ''ABCDEFGHIJKLMNOPQRSTUVWXYZ'' ''abcdefghijklmnopqrstuvwxyz'') c of
        None \<Rightarrow> c | Some d \<Rightarrow> d)"

definition upper_char :: "char \<Rightarrow> char" where
  "upper_char c =
     (case map_of (zip ''abcdefghijklmnopqrstuvwxyz'' ''ABCDEFGHIJKLMNOPQRSTUVWXYZ'') c of
        None \<Rightarrow> c | Some d \<Rightarrow> d)"

definition str_lower :: "string \<Rightarrow> string" where
  "str_lower s = map lower_char s"

definition str_upper :: "string \<Rightarrow> string" where
  "str_upper s = map upper_char s"

definition as_str :: "pyval \<Rightarrow> py_error + string" where
  "as_str v = (case v of PStr s \<Rightarrow> Inr s | _ \<Rightarrow> Inl AttributeError)"

subsection \<open>Rounding and formatting\<close>

definition round_half_even :: "rat \<Rightarrow> int" where
  "round_half_even x =
     (let f = \<lfloor>x\<rfloor>; d = x - of_int f
      in if d < 1 / 2 then f else if 1 / 2 < d then f + 1
         else if even f then f else f + 1)"

text \<open>\<^verbatim>\<open>round(x, n)\<close> for \<^verbatim>\<open>n\<close> decimal places.\<close>

definition py_round :: "rat \<Rightarrow> nat \<Rightarrow> rat" where
  "py_round x n = of_int (round_half_even (x * 10 ^ n)) / 10 ^ n"

definition digit_char :: "nat \<Rightarrow> char" where
  "digit_char d = ''0123456789'' ! d"

function show_nat :: "nat \<Rightarrow> string" where
  "show_nat n = (if n < 10 then [digit_char n] else show_nat (n div 10) @ [digit_char (n mod 10)])"
  by pat_completeness auto
termination
  by (relation "measure id") auto

declare show_nat.simps [simp del]

definition show_int :: "int \<Rightarrow> string" where
  "show_int i = (if i < 0 then ''-'' @ show_nat (nat (- i)) else show_nat (nat i))"

text \<open>The format \<^verbatim>\<open>f"{x:.<n>f}"\<close>: sign, integer digits, a point and \<^verbatim>\<open>n\<close> digits.\<close>

definition fmt_fixed :: "nat \<Rightarrow> rat \<Rightarrow> string" where
  "fmt_fixed n x =
     (let r = nat (round_half_even (\<bar>x\<bar> * 10 ^ n));
          fp = show_nat (r mod 10 ^ n)
      in (if x < 0 then ''-'' else '''') @ show_nat (r div 10 ^ n) @ ''.'' @
         replicate (n - length fp) CHR ''0'' @ fp)"

text \<open>\<^verbatim>\<open>sep.join(xs)\<close>.\<close>

fun join :: "string \<Rightarrow> string list \<Rightarrow> string" where
  "join sep [] = []"
| "join sep [x] = x"
| "join sep (x # y # ys) = x @ sep @ join sep (y # ys)"

text \<open>
  \<^verbatim>\<open>str(v)\<close>, as an f-string without a format uses it. The text of a float
  (\<^verbatim>\<open>float.__repr__\<close>, the shortest digits that read back as the same float) is not part
  of the repository and has no counterpart on exact rationals: it is the parameter
  \<open>frepr\<close> of the model, and every theorem holds for any such function.
\<close>

fun py_str :: "(rat \<Rightarrow> string) \<Rightarrow> pyval \<Rightarrow> string" where
  "py_str frepr PNone = ''None''"
| "py_str frepr (PBool b) = (if b then ''True'' else ''False'')"
| "py_str frepr (PInt i) = show_int i"
| "py_str frepr (PFloat x) = frepr x"
| "py_str frepr (PStr s) = s"

section \<open>The result dictionary\<close>

record trade_signal =
  status :: string
  reason :: string
  entry :: "rat option"
  stop_loss :: "rat option"
  take_profit :: "rat option"
  rrr :: "rat option"
  confidence :: rat
  message :: string
  instrument :: pyval
  timeframe :: pyval
  timestamp :: pyval

text \<open>
  The dictionary that every early return of \<^verbatim>\<open>evaluate_signal\<close> builds: the four risk
  fields are \<^verbatim>\<open>None\<close>, the identification is read with \<^verbatim>\<open>data.get\<close>.
\<close>

definition no_trade :: "string \<Rightarrow> rat \<Rightarrow> string \<Rightarrow> pydict \<Rightarrow> trade_signal" where
  "no_trade rsn conf msg data =
     \<lparr> status = ''no_trade'', reason = rsn,
       entry = None, stop_loss = None, take_profit = None, rrr = None,
       confidence = conf, message = msg,
       instrument = py_get data ''instrument'' PNone,
       timeframe = py_get data ''timeframe'' PNone,
       timestamp = py_get data ''timestamp'' PNone \<rparr>"

section \<open>Module 1: data validation\<close>

definition required_fields :: "string list" where
  "required_fields =
     [''instrument'', ''timeframe'', ''close'', ''high'', ''low'',
      ''rsi_4h'', ''rsi_daily'', ''atr'', ''ema50_daily'']"

definition missing_fields :: "pydict \<Rightarrow> string list" where
  "missing_fields data = filter (\<lambda>field. data field = None) required_fields"

definition none_fields :: "pydict \<Rightarrow> string list" where
  "none_fields data = filter (\<lambda>field. data field = Some PNone) required_fields"

section \<open>Module 2: trend filter\<close>

definition trend_filter :: "pyval \<Rightarrow> pyval \<Rightarrow> py_error + string" where
  "trend_filter close ema50_daily =
     bindE (py_gt close ema50_daily) (\<lambda>above. Inr (if above then ''bullish'' else ''bearish''))"

section \<open>Module 3: confluence analysis\<close>

text \<open>
  Each confluence yields whether it is met and the detail strings it appends to
  \<^verbatim>\<open>confluence_details\<close>.
\<close>

definition rsi_confluence :: "string \<Rightarrow> bool \<Rightarrow> pyval \<Rightarrow> py_error + bool \<times> string list" where
  "rsi_confluence trend strict_mode rsi_4h =
     (if trend = ''bullish'' then
        bindE (as_num rsi_4h) (\<lambda>r.
          if strict_mode then
            Inr (if r \<le> 5 then (True, [''RSI 4H extremely oversold: '' @ fmt_fixed 2 r])
                 else (False, []))
          else
            Inr (if r \<le> 20 then (True, [''RSI 4H oversold: '' @ fmt_fixed 2 r])
                 else (False, [])))
      else if trend = ''bearish'' then
        bindE (as_num rsi_4h) (\<lambda>r.
          if strict_mode then
            Inr (if 95 \<le> r then (True, [''RSI 4H extremely overbought: '' @ fmt_fixed 2 r])
                 else (False, []))
          else
            Inr (if 80 \<le> r then (True, [''RSI 4H overbought: '' @ fmt_fixed 2 r])
                 else (False, [])))
      else Inr (False, []))"

definition bullish_candles :: "string list" where
  "bullish_candles = [''hammer'', ''bullish_engulfing'', ''morning_star'', ''bullish_pin_bar'']"

definition bearish_candles :: "string list" where
  "bearish_candles =
     [''shooting_star'', ''bearish_engulfing'', ''evening_star'', ''bearish_pin_bar'']"

definition candle_confluence :: "string \<Rightarrow> pyval \<Rightarrow> py_error + bool \<times> string list" where
  "candle_confluence trend candle_type =
     (if truthy candle_type then
        (if trend = ''bullish'' then
           bindE (as_str candle_type) (\<lambda>c.
             Inr (if str_lower c \<in> set bullish_candles
                  then (True, [''Bullish candle pattern: '' @ c]) else (False, [])))
         else if trend = ''bearish'' then
           bindE (as_str candle_type) (\<lambda>c.
             Inr (if str_lower c \<in> set bearish_candles
                  then (True, [''Bearish candle pattern: '' @ c]) else (False, [])))
         else Inr (False, []))
      else Inr (False, []))"

definition bullish_patterns :: "string list" where
  "bullish_patterns =
     [''double_bottom'', ''inverse_head_shoulders'', ''ascending_triangle'',
      ''bullish_flag'', ''cup_and_handle'']"

definition bearish_patterns :: "string list" where
  "bearish_patterns =
     [''double_top'', ''head_shoulders'', ''descending_triangle'',
      ''bearish_flag'', ''rising_wedge'']"

definition pattern_confluence ::
  "string \<Rightarrow> pyval \<Rightarrow> pyval \<Rightarrow> py_error + bool \<times> string list" where
  "pattern_confluence trend pattern divergence =
     bindE
       (if truthy pattern then
          (if trend = ''bullish'' then
             bindE (as_str pattern) (\<lambda>p.
               Inr (if str_lower p \<in> set bullish_patterns
                    then (True, [''Bullish pattern: '' @ p]) else (False, [])))
           else if trend = ''bearish'' then
             bindE (as_str pattern) (\<lambda>p.
               Inr (if str_lower p \<in> set bearish_patterns
                    then (True, [''Bearish pattern: '' @ p]) else (False, [])))
           else Inr (False, []))
        else Inr (False, []))
       (\<lambda>(met, details).
          Inr (if truthy divergence then (True, details @ [''Price/RSI divergence detected''])
               else (met, details)))"

definition trend_confluence :: "string \<Rightarrow> pyval \<Rightarrow> py_error + bool \<times> string list" where
  "trend_confluence trend rsi_daily =
     (if trend = ''bullish'' then
        bindE (as_num rsi_daily) (\<lambda>r.
          Inr (if r < 70 then (True, [''Daily trend aligned (RSI Daily: '' @ fmt_fixed 2 r @ '')''])
               else (False, [])))
      else if trend = ''bearish'' then
        bindE (as_num rsi_daily) (\<lambda>r.
          Inr (if 30 < r then (True, [''Daily trend aligned (RSI Daily: '' @ fmt_fixed 2 r @ '')''])
               else (False, [])))
      else Inr (False, []))"

text \<open>
  The whole of Module 3, in the order of the source: the confluence count, the details and
  \<^verbatim>\<open>candle_confluence_met\<close>, which Module 6 reads again.
\<close>

definition confluence_analysis ::
  "pydict \<Rightarrow> string \<Rightarrow> py_error + nat \<times> string list \<times> bool" where
  "confluence_analysis data trend =
     (let strict_mode = truthy (py_get data ''strict_mode'' (PBool False)) in
      bindE (py_getitem data ''rsi_4h'') (\<lambda>rsi_4h.
      bindE (rsi_confluence trend strict_mode rsi_4h) (\<lambda>(rsi_met, d1).
      bindE (candle_confluence trend (py_get data ''candle_type'' PNone)) (\<lambda>(candle_met, d2).
      bindE (pattern_confluence trend (py_get data ''pattern'' PNone)
               (py_get data ''divergence'' (PBool False))) (\<lambda>(pattern_met, d3).
      bindE (py_getitem data ''rsi_daily'') (\<lambda>rsi_daily.
      bindE (trend_confluence trend rsi_daily) (\<lambda>(trend_met, d4).
        Inr (length (filter id [rsi_met, candle_met, pattern_met, trend_met]),
             d1 @ d2 @ d3 @ d4, candle_met))))))))"

definition confluence_message :: "nat \<Rightarrow> string list \<Rightarrow> string" where
  "confluence_message confluence_count confluence_details =
     ''Only '' @ show_nat confluence_count @ ''/4 confluences met. Need at least 3. Met: '' @
     (if confluence_details \<noteq> [] then join ''; '' confluence_details else ''None'')"

section \<open>Modules 4 and 5: entry, stop loss and take profit\<close>

definition signal_direction :: "string \<Rightarrow> py_error + string" where
  "signal_direction trend =
     (if trend = ''bullish'' then Inr ''long''
      else if trend = ''bearish'' then Inr ''short''
      else Inl UnboundLocalError)"

text \<open>The stop-loss distance: the larger of \<^verbatim>\<open>1.0 * atr\<close> and the distance to the swing.\<close>

definition sl_distance :: "pydict \<Rightarrow> string \<Rightarrow> pyval \<Rightarrow> py_error + rat" where
  "sl_distance data direction entry_price =
     bindE (py_getitem data ''atr'') (\<lambda>atr.
     bindE (as_num atr) (\<lambda>a.
       let sl = 1 * a;
           recent_swing_low = py_get data ''recent_swing_low'' PNone;
           recent_swing_high = py_get data ''recent_swing_high'' PNone
       in if direction = ''long'' \<and> recent_swing_low \<noteq> PNone then
            bindE (py_sub entry_price recent_swing_low) (\<lambda>structure_sl_distance.
              Inr (if sl < structure_sl_distance then structure_sl_distance else sl))
          else if direction = ''short'' \<and> recent_swing_high \<noteq> PNone then
            bindE (py_sub recent_swing_high entry_price) (\<lambda>structure_sl_distance.
              Inr (if sl < structure_sl_distance then structure_sl_distance else sl))
          else Inr sl))"

text \<open>
  The price levels, the quotient \<^verbatim>\<open>rrr = tp_distance / sl_distance\<close> (which raises
  ZeroDivisionError on a zero distance) and the rounding. The result is
  \<open>(entry_price, stop_loss, take_profit, rrr)\<close>, all rounded.
\<close>

definition risk_levels ::
  "string \<Rightarrow> rat \<Rightarrow> rat \<Rightarrow> py_error + rat \<times> rat \<times> rat \<times> rat" where
  "risk_levels direction entry_price sl =
     (let tp_distance = 2 * sl in
      bindE (if direction = ''long'' then Inr (entry_price - sl, entry_price + tp_distance)
             else if direction = ''short'' then Inr (entry_price + sl, entry_price - tp_distance)
             else Inl UnboundLocalError) (\<lambda>(stop, target).
      bindE (if sl = 0 then Inl ZeroDivisionError else Inr (tp_distance / sl)) (\<lambda>ratio.
        Inr (py_round entry_price 5, py_round stop 5, py_round target 5, py_round ratio 2))))"

section \<open>Module 6: confidence scoring\<close>

definition confluence_percentage :: "nat \<Rightarrow> rat" where
  "confluence_percentage confluence_count = (of_nat confluence_count / 4) * 25"

definition trend_score :: "string \<Rightarrow> rat \<Rightarrow> nat" where
  "trend_score trend rsi_daily =
     (if trend = ''bullish'' then
        (if rsi_daily < 50 then 20 else if rsi_daily < 60 then 15
         else if rsi_daily < 70 then 10 else 5)
      else if trend = ''bearish'' then
        (if 50 < rsi_daily then 20 else if 40 < rsi_daily then 15
         else if 30 < rsi_daily then 10 else 5)
      else 0)"

definition level_quality_score :: nat where
  "level_quality_score = 20"

definition strong_patterns :: "string list" where
  "strong_patterns =
     [''hammer'', ''shooting_star'', ''bullish_engulfing'',
      ''bearish_engulfing'', ''morning_star'', ''evening_star'']"

definition candle_score :: "bool \<Rightarrow> pyval \<Rightarrow> py_error + nat" where
  "candle_score candle_confluence_met candle_type =
     (if candle_confluence_met then
        (if truthy candle_type then
           bindE (as_str candle_type) (\<lambda>c.
             Inr (if str_lower c \<in> set strong_patterns then 20 else 12))
         else Inr 12)
      else Inr 8)"

definition market_conditions_score :: nat where
  "market_conditions_score = 15"

text \<open>
  The five components summed and rounded to one decimal; the result is
  \<open>(confidence_score, trend_score, candle_score)\<close>.
\<close>

definition confidence_scoring ::
  "pydict \<Rightarrow> string \<Rightarrow> nat \<Rightarrow> bool \<Rightarrow> py_error + rat \<times> nat \<times> nat" where
  "confidence_scoring data trend confluence_count candle_confluence_met =
     bindE (py_getitem data ''rsi_daily'') (\<lambda>rsi_daily.
     bindE (as_num rsi_daily) (\<lambda>rd.
     bindE (candle_score candle_confluence_met (py_get data ''candle_type'' PNone)) (\<lambda>cscore.
       let tscore = trend_score trend rd
       in Inr (py_round (confluence_percentage confluence_count + of_nat tscore +
                         of_nat level_quality_score + of_nat cscore +
                         of_nat market_conditions_score) 1,
               tscore, cscore))))"

definition confidence_message ::
  "(rat \<Rightarrow> string) \<Rightarrow> rat \<Rightarrow> nat \<Rightarrow> nat \<Rightarrow> nat \<Rightarrow> string" where
  "confidence_message frepr confidence_score confluence_count tscore cscore =
     ''Confidence score '' @ frepr confidence_score @ ''% is below minimum threshold of 70%. '' @
     ''Confluences: '' @ fmt_fixed 1 (confluence_percentage confluence_count) @
     ''%, Trend: '' @ show_nat tscore @
     '', Level: '' @ show_nat level_quality_score @
     '', Candle: '' @ show_nat cscore @
     '', Market: '' @ show_nat market_conditions_score"

section \<open>Module 7: final decision\<close>

definition final_message :: "string \<Rightarrow> string \<Rightarrow> nat \<Rightarrow> string list \<Rightarrow> string" where
  "final_message trend direction confluence_count confluence_details =
     join '' | ''
       [''Trend: '' @ str_upper trend,
        ''Signal: '' @ str_upper direction,
        ''Confluences ('' @ show_nat confluence_count @ ''/4): '' @
          join ''; '' confluence_details]"

definition final_decision ::
  "pydict \<Rightarrow> string \<Rightarrow> string \<Rightarrow> nat \<Rightarrow> string list \<Rightarrow> rat \<Rightarrow>
   rat \<times> rat \<times> rat \<times> rat \<Rightarrow> trade_signal" where
  "final_decision data trend direction confluence_count confluence_details confidence_score lv =
     (case lv of (entry_price, stop, target, ratio) \<Rightarrow>
        if direction = ''long'' \<and> (entry_price \<le> stop \<or> target \<le> entry_price) then
          no_trade ''invalid_risk_parameters'' confidence_score
            ''Invalid SL/TP positioning for long trade'' data
        else if direction = ''short'' \<and> (stop \<le> entry_price \<or> entry_price \<le> target) then
          no_trade ''invalid_risk_parameters'' confidence_score
            ''Invalid SL/TP positioning for short trade'' data
        else
          \<lparr> status = direction, reason = ''all_conditions_met'',
            entry = Some entry_price, stop_loss = Some stop,
            take_profit = Some target, rrr = Some ratio,
            confidence = confidence_score,
            message = final_message trend direction confluence_count confluence_details,
            instrument = py_get data ''instrument'' PNone,
            timeframe = py_get data ''timeframe'' PNone,
            timestamp = py_get data ''timestamp'' PNone \<rparr>)"

section \<open>The evaluator\<close>

text \<open>
  Modules 4 to 7 of \<^verbatim>\<open>evaluate_signal\<close>: what the function does once at least three
  confluences are met.
\<close>

definition signal_decision ::
  "(rat \<Rightarrow> string) \<Rightarrow> pydict \<Rightarrow> string \<Rightarrow> nat \<Rightarrow> string list \<Rightarrow> bool \<Rightarrow>
   py_error + trade_signal" where
  "signal_decision frepr data trend confluence_count confluence_details candle_met =
     bindE (signal_direction trend) (\<lambda>direction.
     bindE (py_getitem data ''close'') (\<lambda>entry_price.
     bindE (sl_distance data direction entry_price) (\<lambda>sl.
     bindE (as_num entry_price) (\<lambda>e.
     bindE (risk_levels direction e sl) (\<lambda>lv.
     bindE (confidence_scoring data trend confluence_count candle_met)
       (\<lambda>(confidence_score, tscore, cscore).
          if confidence_score < 70 then
            Inr (no_trade ''confidence_too_low'' confidence_score
                   (confidence_message frepr confidence_score confluence_count tscore cscore)
                   data)
          else
            Inr (final_decision data trend direction confluence_count confluence_details
                   confidence_score lv)))))))"

text \<open>
  The body of \<^verbatim>\<open>evaluate_signal\<close> after validation: Modules 2 and 3, the confluence gate,
  then the decision.
\<close>

definition evaluate_valid :: "(rat \<Rightarrow> string) \<Rightarrow> pydict \<Rightarrow> py_error + trade_signal" where
  "evaluate_valid frepr data =
     bindE (py_getitem data ''close'') (\<lambda>close.
     bindE (py_getitem data ''ema50_daily'') (\<lambda>ema50_daily.
     bindE (trend_filter close ema50_daily) (\<lambda>trend.
     bindE (confluence_analysis data trend) (\<lambda>(confluence_count, confluence_details, candle_met).
       if confluence_count < 3 then
         Inr (no_trade ''not_enough_confluences'' 0
                (confluence_message confluence_count confluence_details) data)
       else
         signal_decision frepr data trend confluence_count confluence_details candle_met))))"

definition evaluate_signal :: "(rat \<Rightarrow> string) \<Rightarrow> pydict \<Rightarrow> py_error + trade_signal" where
  "evaluate_signal frepr data =
     (if missing_fields data \<noteq> [] then
        Inr (no_trade ''data_invalid'' 0
               (''Missing required fields: '' @ join '', '' (missing_fields data)) data)
      else if none_fields data \<noteq> [] then
        Inr (no_trade ''data_invalid'' 0
               (''Fields with None values: '' @ join '', '' (none_fields data)) data)
      else
        bindE (py_getitem data ''timeframe'') (\<lambda>tf.
          if tf \<noteq> PStr ''4H'' then
            Inr (no_trade ''preconditions_not_met'' 0
                   (''Invalid timeframe '' @ [CHR 0x27] @ py_str frepr tf @ [CHR 0x27] @
                    ''. Strategy requires '' @ [CHR 0x27] @ ''4H'' @ [CHR 0x27] @ '' timeframe.'')
                   data)
          else evaluate_valid frepr data))"

section \<open>Concrete inputs\<close>

text \<open>
  A stand-in for \<^verbatim>\<open>float.__repr__\<close> where a closed statement needs one: one decimal
  place, which is what Python prints for the confidence scores.
\<close>

definition sample_repr :: "rat \<Rightarrow> string" where
  "sample_repr x = fmt_fixed 1 x"

text \<open>The request of the end-to-end example (the example body documented in \<^verbatim>\<open>main.py.py\<close>).\<close>

definition eurusd_example :: pydict where
  "eurusd_example =
     [''instrument'' \<mapsto> PStr ''EURUSD'', ''timeframe'' \<mapsto> PStr ''4H'',
      ''timestamp'' \<mapsto> PStr ''2024-01-15T10:00:00Z'',
      ''close'' \<mapsto> PFloat 1.0850, ''high'' \<mapsto> PFloat 1.0865, ''low'' \<mapsto> PFloat 1.0835,
      ''rsi_4h'' \<mapsto> PFloat 18.5, ''rsi_daily'' \<mapsto> PFloat 45.2, ''atr'' \<mapsto> PFloat 0.0025,
      ''ema50_daily'' \<mapsto> PFloat 1.0800, ''candle_type'' \<mapsto> PStr ''hammer'',
      ''pattern'' \<mapsto> PStr ''double_bottom'', ''divergence'' \<mapsto> PBool True,
      ''recent_swing_low'' \<mapsto> PFloat 1.0820]"

text \<open>The result the example is documented to produce.\<close>

definition eurusd_result :: trade_signal where
  "eurusd_result =
     \<lparr> status = ''long'', reason = ''all_conditions_met'',
       entry = Some 1.0850, stop_loss = Some 1.0820, take_profit = Some 1.0910,
       rrr = Some 2.0, confidence = 100.0,
       message = ''Trend: BULLISH | Signal: LONG | Confluences (4/4): RSI 4H oversold: 18.50; Bullish candle pattern: hammer; Bullish pattern: double_bottom; Price/RSI divergence detected; Daily trend aligned (RSI Daily: 45.20)'',
       instrument = PStr ''EURUSD'', timeframe = PStr ''4H'',
       timestamp = PStr ''2024-01-15T10:00:00Z'' \<rparr>"

text \<open>The example with a zero ATR and no swing level: the stop-loss distance is 0.\<close>

definition zero_atr_input :: pydict where
  "zero_atr_input = eurusd_example(''atr'' \<mapsto> PFloat 0, ''recent_swing_low'' := None)"


text \<open>The example without its timestamp, and without two of the checked fields.\<close>

definition no_timestamp_input :: pydict where
  "no_timestamp_input = eurusd_example(''timestamp'' := None)"

definition no_high_atr_input :: pydict where
  "no_high_atr_input = eurusd_example(''high'' := None, ''atr'' := None)"

text \<open>The example with no confluence met, and with two confluences met.\<close>

definition no_confluence_input :: pydict where
  "no_confluence_input =
     eurusd_example(''rsi_4h'' \<mapsto> PFloat 50, ''rsi_daily'' \<mapsto> PInt 75,
       ''candle_type'' := None, ''pattern'' := None, ''divergence'' := None)"

definition two_confluence_input :: pydict where
  "two_confluence_input = eurusd_example(''rsi_4h'' \<mapsto> PFloat 50, ''candle_type'' := None)"

text \<open>
  The message of the confluence gate as the specification words it,
  \<^verbatim>\<open>"{count}/4 confluences met. Need at least 3. Met: {details or 'None'}"\<close>, to be
  compared with \<open>confluence_message\<close>, which is the f-string of the source.
\<close>

definition spec_confluence_message :: "nat \<Rightarrow> string list \<Rightarrow> string" where
  "spec_confluence_message confluence_count confluence_details =
     show_nat confluence_count @ ''/4 confluences met. Need at least 3. Met: '' @
     (if confluence_details \<noteq> [] then join ''; '' confluence_details else ''None'')"



text \<open>The example with a negative ATR and no swing level.\<close>

definition negative_atr_input :: pydict where
  "negative_atr_input = eurusd_example(''atr'' \<mapsto> PFloat (- 0.0025), ''recent_swing_low'' := None)"

text \<open>
  The types the request schema of \<^verbatim>\<open>main.py.py\<close> gives the fields that
  \<^verbatim>\<open>evaluate_signal\<close> computes with: numbers for the prices and indicators, a string or
  \<^verbatim>\<open>None\<close> for the two labels, a number or \<^verbatim>\<open>None\<close> for the swing levels.
\<close>

definition is_number :: "pyval \<Rightarrow> bool" where
  "is_number v = (num_of v \<noteq> None)"

definition is_label :: "pyval \<Rightarrow> bool" where
  "is_label v = (case v of PNone \<Rightarrow> True | PStr s \<Rightarrow> True | _ \<Rightarrow> False)"

definition well_typed :: "pydict \<Rightarrow> bool" where
  "well_typed data =
     (is_number (py_get data ''close'' PNone) \<and> is_number (py_get data ''ema50_daily'' PNone) \<and>
      is_number (py_get data ''rsi_4h'' PNone) \<and> is_number (py_get data ''rsi_daily'' PNone) \<and>
      is_number (py_get data ''atr'' PNone) \<and>
      is_label (py_get data ''candle_type'' PNone) \<and> is_label (py_get data ''pattern'' PNone) \<and>
      (data ''recent_swing_low'' = None \<or> data ''recent_swing_low'' = Some PNone \<or>
       is_number (py_get data ''recent_swing_low'' PNone)) \<and>
      (data ''recent_swing_high'' = None \<or> data ''recent_swing_high'' = Some PNone \<or>
       is_number (py_get data ''recent_swing_high'' PNone)))"

section \<open>Basic facts\<close>

lemma bindE_Inl [simp]: "bindE (Inl e) f = Inl e"
  by (simp add: bindE_def)

lemma bindE_Inr [simp]: "bindE (Inr v) f = f v"
  by (simp add: bindE_def)

lemma bindE_eq_Inr: "bindE m f = Inr r \<longleftrightarrow> (\<exists>v. m = Inr v \<and> f v = Inr r)"
  by (cases m) simp_all







lemma sl_distance_ge_atr:
  assumes "sl_distance data direction ep = Inr sl" "data ''atr'' = Some a" "num_of a = Some x"
  shows "x \<le> sl"
  using assms
  by (auto simp: sl_distance_def Let_def bindE_eq_Inr py_getitem_def as_num_def
           split: if_splits option.splits)

lemma signal_direction_Inr:
  "signal_direction trend = Inr direction \<Longrightarrow> direction = ''long'' \<or> direction = ''short''"
  by (auto simp: signal_direction_def split: if_splits)

lemma bindE_InrE:
  assumes "bindE m f = Inr r"
  obtains v where "m = Inr v" "f v = Inr r"
  using assms by (auto simp: bindE_eq_Inr)

lemma signal_decision_InrE:
  assumes "signal_decision frepr data trend n details cm = Inr r"
    and low: "\<And>conf msg. r = no_trade ''confidence_too_low'' conf msg data \<Longrightarrow> P"
    and decide: "\<And>direction conf ep e sl lv.
            signal_direction trend = Inr direction \<Longrightarrow> data ''close'' = Some ep \<Longrightarrow>
            as_num ep = Inr e \<Longrightarrow> sl_distance data direction ep = Inr sl \<Longrightarrow>
            risk_levels direction e sl = Inr lv \<Longrightarrow>
            r = final_decision data trend direction n details conf lv \<Longrightarrow> P"
  shows P
proof -
  from assms(1) obtain direction where d: "signal_direction trend = Inr direction"
    and 1: "bindE (py_getitem data ''close'') (\<lambda>entry_price.
     bindE (sl_distance data direction entry_price) (\<lambda>sl.
     bindE (as_num entry_price) (\<lambda>e.
     bindE (risk_levels direction e sl) (\<lambda>lv.
     bindE (confidence_scoring data trend n cm)
       (\<lambda>(confidence_score, tscore, cscore).
          if confidence_score < 70 then
            Inr (no_trade ''confidence_too_low'' confidence_score
                   (confidence_message frepr confidence_score n tscore cscore)
                   data)
          else
            Inr (final_decision data trend direction n details
                   confidence_score lv)))))) = Inr r"
    unfolding signal_decision_def by (rule bindE_InrE)
  from 1 obtain ep where ep: "py_getitem data ''close'' = Inr ep"
    and 2: "bindE (sl_distance data direction ep) (\<lambda>sl.
     bindE (as_num ep) (\<lambda>e.
     bindE (risk_levels direction e sl) (\<lambda>lv.
     bindE (confidence_scoring data trend n cm)
       (\<lambda>(confidence_score, tscore, cscore).
          if confidence_score < 70 then
            Inr (no_trade ''confidence_too_low'' confidence_score
                   (confidence_message frepr confidence_score n tscore cscore)
                   data)
          else
            Inr (final_decision data trend direction n details
                   confidence_score lv))))) = Inr r"
    by (rule bindE_InrE)
  from 2 obtain sl where sl: "sl_distance data direction ep = Inr sl"
    and 3: "bindE (as_num ep) (\<lambda>e.
     bindE (risk_levels direction e sl) (\<lambda>lv.
     bindE (confidence_scoring data trend n cm)
       (\<lambda>(confidence_score, tscore, cscore).
          if confidence_score < 70 then
            Inr (no_trade ''confidence_too_low'' confidence_score
                   (confidence_message frepr confidence_score n tscore cscore)
                   data)
          else
            Inr (final_decision data trend direction n details
                   confidence_score lv)))) = Inr r"
    by (rule bindE_InrE)
  from 3 obtain e where e: "as_num ep = Inr e"
    and 4: "bindE (risk_levels direction e sl) (\<lambda>lv.
     bindE (confidence_scoring data trend n cm)
       (\<lambda>(confidence_score, tscore, cscore).
          if confidence_score < 70 then
            Inr (no_trade ''confidence_too_low'' confidence_score
                   (confidence_message frepr confidence_score n tscore cscore)
                   data)
          else
            Inr (final_decision data trend direction n details
                   confidence_score lv))) = Inr r"
    by (rule bindE_InrE)
  from 4 obtain lv where lv: "risk_levels direction e sl = Inr lv"
    and 5: "bindE (confidence_scoring data trend n cm)
       (\<lambda>(confidence_score, tscore, cscore).
          if confidence_score < 70 then
            Inr (no_trade ''confidence_too_low'' confidence_score
                   (confidence_message frepr confidence_score n tscore cscore)
                   data)
          else
            Inr (final_decision data trend direction n details
                   confidence_score lv)) = Inr r"
    by (rule bindE_InrE)
  obtain conf ts cs' where cs: "confidence_scoring data trend n cm = Inr (conf, ts, cs')"
    using 5 by (cases "confidence_scoring data trend n cm") auto
  from ep have ep': "data ''close'' = Some ep"
    by (simp add: py_getitem_def split: option.splits)
  show ?thesis
  proof (cases "conf < 70")
    case True
    with 5 cs have "r = no_trade ''confidence_too_low'' conf
        (confidence_message frepr conf n ts cs') data"
      by simp
    then show ?thesis by (rule low)
  next
    case False
    with 5 cs have "r = final_decision data trend direction n details conf lv"
      by simp
    with d ep' e sl lv show ?thesis by (rule decide)
  qed
qed

lemma evaluate_valid_InrE:
  assumes "evaluate_valid frepr data = Inr r"
    and few: "\<And>n details. r = no_trade ''not_enough_confluences'' 0
                 (confluence_message n details) data \<Longrightarrow> P"
    and low: "\<And>conf msg. r = no_trade ''confidence_too_low'' conf msg data \<Longrightarrow> P"
    and decide: "\<And>trend direction n details conf ep e sl lv.
            signal_direction trend = Inr direction \<Longrightarrow> data ''close'' = Some ep \<Longrightarrow>
            as_num ep = Inr e \<Longrightarrow> sl_distance data direction ep = Inr sl \<Longrightarrow>
            risk_levels direction e sl = Inr lv \<Longrightarrow>
            r = final_decision data trend direction n details conf lv \<Longrightarrow> P"
  shows P
proof -
  from assms(1) obtain trend ca where
    1: "(case ca of (n, details, cm) \<Rightarrow>
          if n < 3 then Inr (no_trade ''not_enough_confluences'' 0 (confluence_message n details) data)
          else signal_decision frepr data trend n details cm) = Inr r"
    unfolding evaluate_valid_def by (elim bindE_InrE)
  obtain n details cm where ca: "ca = (n, details, cm)" by (cases ca)
  show ?thesis
  proof (cases "n < 3")
    case True
    with 1 ca have "r = no_trade ''not_enough_confluences'' 0 (confluence_message n details) data"
      by simp
    then show ?thesis by (rule few)
  next
    case False
    with 1 ca have "signal_decision frepr data trend n details cm = Inr r" by simp
    then show ?thesis
      by (rule signal_decision_InrE) (erule low, erule decide, assumption+)
  qed
qed

lemma evaluate_signal_InrE:
  assumes "evaluate_signal frepr data = Inr r"
    and missing: "missing_fields data \<noteq> [] \<Longrightarrow> r = no_trade ''data_invalid'' 0
        (''Missing required fields: '' @ join '', '' (missing_fields data)) data \<Longrightarrow> P"
    and none: "none_fields data \<noteq> [] \<Longrightarrow> r = no_trade ''data_invalid'' 0
        (''Fields with None values: '' @ join '', '' (none_fields data)) data \<Longrightarrow> P"
    and tf: "\<And>msg. r = no_trade ''preconditions_not_met'' 0 msg data \<Longrightarrow> P"
    and few: "\<And>n details. r = no_trade ''not_enough_confluences'' 0
                 (confluence_message n details) data \<Longrightarrow> P"
    and low: "\<And>conf msg. r = no_trade ''confidence_too_low'' conf msg data \<Longrightarrow> P"
    and decide: "\<And>trend direction n details conf ep e sl lv.
            signal_direction trend = Inr direction \<Longrightarrow> data ''close'' = Some ep \<Longrightarrow>
            as_num ep = Inr e \<Longrightarrow> sl_distance data direction ep = Inr sl \<Longrightarrow>
            risk_levels direction e sl = Inr lv \<Longrightarrow>
            r = final_decision data trend direction n details conf lv \<Longrightarrow> P"
  shows P
proof (cases "missing_fields data \<noteq> []")
  case True
  with assms(1) have "r = no_trade ''data_invalid'' 0
      (''Missing required fields: '' @ join '', '' (missing_fields data)) data"
    by (simp add: evaluate_signal_def)
  with True show ?thesis by (rule missing)
next
  case m: False
  show ?thesis
  proof (cases "none_fields data \<noteq> []")
    case True
    with m assms(1) have "r = no_trade ''data_invalid'' 0
        (''Fields with None values: '' @ join '', '' (none_fields data)) data"
      by (simp add: evaluate_signal_def)
    with True show ?thesis by (rule none)
  next
    case n: False
    define k where "k = (\<lambda>tf. if tf \<noteq> PStr ''4H'' then
            Inr (no_trade ''preconditions_not_met'' 0
                   (''Invalid timeframe '' @ [CHR 0x27] @ py_str frepr tf @ [CHR 0x27] @
                    ''. Strategy requires '' @ [CHR 0x27] @ ''4H'' @ [CHR 0x27] @ '' timeframe.'')
                   data)
          else evaluate_valid frepr data)"
    from m n assms(1) have "bindE (py_getitem data ''timeframe'') k = Inr r"
      by (simp add: evaluate_signal_def k_def)
    then obtain v where v: "py_getitem data ''timeframe'' = Inr v" and 1: "k v = Inr r"
      by (rule bindE_InrE)
    show ?thesis
    proof (cases "v = PStr ''4H''")
      case False
      with 1 have "r = no_trade ''preconditions_not_met'' 0
                   (''Invalid timeframe '' @ [CHR 0x27] @ py_str frepr v @ [CHR 0x27] @
                    ''. Strategy requires '' @ [CHR 0x27] @ ''4H'' @ [CHR 0x27] @ '' timeframe.'')
                   data"
        by (simp add: k_def)
      then show ?thesis by (rule tf)
    next
      case True
      with 1 have "evaluate_valid frepr data = Inr r"
        by (simp add: k_def)
      then show ?thesis
        by (rule evaluate_valid_InrE) (erule few, erule low, erule decide, assumption+)
    qed
  qed
qed


lemma no_trade_sel [simp]:
  "status (no_trade rsn conf msg data) = ''no_trade''"
  "reason (no_trade rsn conf msg data) = rsn"
  "entry (no_trade rsn conf msg data) = None"
  "stop_loss (no_trade rsn conf msg data) = None"
  "take_profit (no_trade rsn conf msg data) = None"
  "rrr (no_trade rsn conf msg data) = None"
  "confidence (no_trade rsn conf msg data) = conf"
  "message (no_trade rsn conf msg data) = msg"
  by (simp_all add: no_trade_def)

lemma final_decisionE:
  assumes r: "r = final_decision data trend direction n details conf (e, s, t, q)"
    and dir: "direction = ''long'' \<or> direction = ''short''"
    and invalid: "\<And>msg. r = no_trade ''invalid_risk_parameters'' conf msg data \<Longrightarrow>
        direction = ''long'' \<and> (e \<le> s \<or> t \<le> e) \<or>
        direction = ''short'' \<and> (s \<le> e \<or> e \<le> t) \<Longrightarrow> P"
    and accept: "status r = direction \<Longrightarrow> reason r = ''all_conditions_met'' \<Longrightarrow>
        entry r = Some e \<Longrightarrow> stop_loss r = Some s \<Longrightarrow> take_profit r = Some t \<Longrightarrow>
        rrr r = Some q \<Longrightarrow>
        direction = ''long'' \<and> s < e \<and> e < t \<or> direction = ''short'' \<and> t < e \<and> e < s \<Longrightarrow> P"
  shows P
proof -
  have ns: "''short'' \<noteq> ''long''" by simp
  from dir show ?thesis
  proof
    assume l: "direction = ''long''"
    show ?thesis
    proof (cases "e \<le> s \<or> t \<le> e")
      case True
      have "r = no_trade ''invalid_risk_parameters'' conf
          ''Invalid SL/TP positioning for long trade'' data"
        unfolding r final_decision_def using l True by simp
      moreover have "direction = ''long'' \<and> (e \<le> s \<or> t \<le> e) \<or>
        direction = ''short'' \<and> (s \<le> e \<or> e \<le> t)"
        using l True by simp
      ultimately show ?thesis by (rule invalid)
    next
      case False
      have eq: "r = \<lparr> status = direction, reason = ''all_conditions_met'',
            entry = Some e, stop_loss = Some s, take_profit = Some t, rrr = Some q,
            confidence = conf,
            message = final_message trend direction n details,
            instrument = py_get data ''instrument'' PNone,
            timeframe = py_get data ''timeframe'' PNone,
            timestamp = py_get data ''timestamp'' PNone \<rparr>"
        unfolding r final_decision_def using l False ns by simp
      from False have "s < e \<and> e < t" by auto
      with l have ord: "direction = ''long'' \<and> s < e \<and> e < t \<or>
          direction = ''short'' \<and> t < e \<and> e < s"
        by simp
      show ?thesis
        by (rule accept [OF _ _ _ _ _ _ ord]) (simp_all only: eq trade_signal.simps)
    qed
  next
    assume sh: "direction = ''short''"
    show ?thesis
    proof (cases "s \<le> e \<or> e \<le> t")
      case True
      have "r = no_trade ''invalid_risk_parameters'' conf
          ''Invalid SL/TP positioning for short trade'' data"
        unfolding r final_decision_def using sh True ns by simp
      moreover have "direction = ''long'' \<and> (e \<le> s \<or> t \<le> e) \<or>
        direction = ''short'' \<and> (s \<le> e \<or> e \<le> t)"
        using sh True by simp
      ultimately show ?thesis by (rule invalid)
    next
      case False
      have eq: "r = \<lparr> status = direction, reason = ''all_conditions_met'',
            entry = Some e, stop_loss = Some s, take_profit = Some t, rrr = Some q,
            confidence = conf,
            message = final_message trend direction n details,
            instrument = py_get data ''instrument'' PNone,
            timeframe = py_get data ''timeframe'' PNone,
            timestamp = py_get data ''timestamp'' PNone \<rparr>"
        unfolding r final_decision_def using sh False ns by simp
      from False have "t < e \<and> e < s" by auto
      with sh have ord: "direction = ''long'' \<and> s < e \<and> e < t \<or>
          direction = ''short'' \<and> t < e \<and> e < s"
        by simp
      show ?thesis
        by (rule accept [OF _ _ _ _ _ _ ord]) (simp_all only: eq trade_signal.simps)
    qed
  qed
qed

section \<open>Facts about the stages\<close>



lemma eurusd_example_result: "evaluate_signal frepr eurusd_example = Inr eurusd_result"
  by code_simp

lemma no_high_atr_lookups:
  "missing_fields no_high_atr_input = [''high'', ''atr'']"
  "py_get no_high_atr_input ''instrument'' PNone = PStr ''EURUSD''"
  "py_get no_high_atr_input ''timeframe'' PNone = PStr ''4H''"
  "py_get no_high_atr_input ''timestamp'' PNone = PStr ''2024-01-15T10:00:00Z''"
  by code_simp+

lemma rsi_confluence_details:
  "rsi_confluence trend strict rsi = Inr (met, ds) \<Longrightarrow> (ds = []) = (\<not> met)"
  by (auto simp: rsi_confluence_def bindE_eq_Inr split: if_splits)

lemma candle_confluence_details:
  "candle_confluence trend c = Inr (met, ds) \<Longrightarrow> (ds = []) = (\<not> met)"
  by (auto simp: candle_confluence_def bindE_eq_Inr split: if_splits)

lemma pattern_confluence_details:
  "pattern_confluence trend p dv = Inr (met, ds) \<Longrightarrow> (ds = []) = (\<not> met)"
  by (auto simp: pattern_confluence_def bindE_eq_Inr split: if_splits)

lemma trend_confluence_details:
  "trend_confluence trend rd = Inr (met, ds) \<Longrightarrow> (ds = []) = (\<not> met)"
  by (auto simp: trend_confluence_def bindE_eq_Inr split: if_splits)

lemma confluence_analysis_details:
  assumes "confluence_analysis data trend = Inr (n, details, cm)"
  shows "(details = []) = (n = 0)"
proof -
  from assms obtain m1 d1 m2 d2 m3 d3 m4 d4 rsi p dv rd where
    1: "rsi_confluence trend (truthy (py_get data ''strict_mode'' (PBool False))) rsi = Inr (m1, d1)"
    and 2: "candle_confluence trend (py_get data ''candle_type'' PNone) = Inr (m2, d2)"
    and 3: "pattern_confluence trend p dv = Inr (m3, d3)"
    and 4: "trend_confluence trend rd = Inr (m4, d4)"
    and n: "n = length (filter id [m1, m2, m3, m4])"
    and d: "details = d1 @ d2 @ d3 @ d4"
    unfolding confluence_analysis_def Let_def
    by (auto simp: bindE_eq_Inr)
  from rsi_confluence_details [OF 1] candle_confluence_details [OF 2]
    pattern_confluence_details [OF 3] trend_confluence_details [OF 4]
  show ?thesis unfolding n d by auto
qed

lemma two_confluence_lookups:
  "missing_fields two_confluence_input = []"
  "none_fields two_confluence_input = []"
  "two_confluence_input ''timeframe'' = Some (PStr ''4H'')"
  "two_confluence_input ''close'' = Some (PFloat 1.0850)"
  "two_confluence_input ''ema50_daily'' = Some (PFloat 1.0800)"
  "trend_filter (PFloat 1.0850) (PFloat 1.0800) = Inr ''bullish''"
  "confluence_analysis two_confluence_input ''bullish'' =
     Inr (2, [''Bullish pattern: double_bottom'', ''Price/RSI divergence detected'',
              ''Daily trend aligned (RSI Daily: 45.20)''], False)"
  "py_get two_confluence_input ''instrument'' PNone = PStr ''EURUSD''"
  "py_get two_confluence_input ''timeframe'' PNone = PStr ''4H''"
  "py_get two_confluence_input ''timestamp'' PNone = PStr ''2024-01-15T10:00:00Z''"
  "show_nat 2 = ''2''"
  by code_simp+

lemma evaluate_signal_cong:
  assumes eq: "x ''instrument'' = y ''instrument''" "x ''timeframe'' = y ''timeframe''"
      "x ''timestamp'' = y ''timestamp''" "x ''close'' = y ''close''"
      "x ''rsi_4h'' = y ''rsi_4h''" "x ''rsi_daily'' = y ''rsi_daily''"
      "x ''atr'' = y ''atr''" "x ''ema50_daily'' = y ''ema50_daily''"
      "x ''candle_type'' = y ''candle_type''" "x ''pattern'' = y ''pattern''"
      "x ''divergence'' = y ''divergence''"
      "x ''recent_swing_low'' = y ''recent_swing_low''"
      "x ''recent_swing_high'' = y ''recent_swing_high''"
      "x ''strict_mode'' = y ''strict_mode''"
    and high: "(x ''high'' = None) = (y ''high'' = None)"
      "(x ''high'' = Some PNone) = (y ''high'' = Some PNone)"
    and low: "(x ''low'' = None) = (y ''low'' = None)"
      "(x ''low'' = Some PNone) = (y ''low'' = Some PNone)"
  shows "evaluate_signal frepr x = evaluate_signal frepr y"
proof -
  have m: "missing_fields x = missing_fields y"
    unfolding missing_fields_def required_fields_def filter.simps eq high low by (rule refl)
  have n: "none_fields x = none_fields y"
    unfolding none_fields_def required_fields_def filter.simps eq high low by (rule refl)
  have nt: "no_trade rsn conf msg x = no_trade rsn conf msg y" for rsn conf msg
    unfolding no_trade_def py_get_def eq by (rule refl)
  have ca: "confluence_analysis x trend = confluence_analysis y trend" for trend
    unfolding confluence_analysis_def py_get_def py_getitem_def eq by (rule refl)
  have sl: "sl_distance x direction ep = sl_distance y direction ep" for direction ep
    unfolding sl_distance_def py_get_def py_getitem_def eq by (rule refl)
  have cs: "confidence_scoring x trend k cm = confidence_scoring y trend k cm" for trend k cm
    unfolding confidence_scoring_def py_get_def py_getitem_def eq by (rule refl)
  have fd: "final_decision x trend direction k ds conf lv = final_decision y trend direction k ds conf lv"
    for trend direction k ds conf lv
    unfolding final_decision_def nt py_get_def eq by (rule refl)
  have sd: "signal_decision frepr x trend k ds cm = signal_decision frepr y trend k ds cm"
    for trend k ds cm
    unfolding signal_decision_def py_getitem_def eq sl cs fd nt by (rule refl)
  have ev: "evaluate_valid frepr x = evaluate_valid frepr y"
    unfolding evaluate_valid_def py_getitem_def eq ca sd nt by (rule refl)
  show ?thesis
    unfolding evaluate_signal_def py_getitem_def eq m n nt ev by (rule refl)
qed

lemma is_numberE:
  assumes "is_number (py_get data k PNone)"
  obtains v x where "data k = Some v" "num_of v = Some x" "py_getitem data k = Inr v" "as_num v = Inr x"
  using assms by (auto simp: is_number_def py_get_def py_getitem_def as_num_def split: option.splits)

lemma is_label_truthy: "is_label v \<Longrightarrow> truthy v \<Longrightarrow> \<exists>s. as_str v = Inr s"
  by (cases v) (auto simp: is_label_def as_str_def)

lemma rsi_confluence_total:
  "as_num rsi = Inr x \<Longrightarrow> \<exists>met ds. rsi_confluence trend strict rsi = Inr (met, ds)"
  by (auto simp: rsi_confluence_def)

lemma candle_confluence_total:
  assumes "is_label c"
  shows "\<exists>met ds. candle_confluence trend c = Inr (met, ds) \<and> (met \<longrightarrow> truthy c)"
proof (cases "truthy c")
  case True
  with assms obtain s where "as_str c = Inr s" using is_label_truthy by blast
  with True show ?thesis by (auto simp: candle_confluence_def)
next
  case False
  then show ?thesis by (auto simp: candle_confluence_def)
qed

lemma pattern_confluence_total:
  assumes "is_label p"
  shows "\<exists>met ds. pattern_confluence trend p dv = Inr (met, ds)"
proof (cases "truthy p")
  case True
  with assms obtain s where "as_str p = Inr s" using is_label_truthy by blast
  with True show ?thesis by (auto simp: pattern_confluence_def)
next
  case False
  then show ?thesis by (auto simp: pattern_confluence_def)
qed

lemma trend_confluence_total:
  "as_num rd = Inr x \<Longrightarrow> \<exists>met ds. trend_confluence trend rd = Inr (met, ds)"
  by (auto simp: trend_confluence_def)

lemma confluence_analysis_total:
  assumes "well_typed data"
  shows "\<exists>n ds cm. confluence_analysis data trend = Inr (n, ds, cm) \<and>
           (cm \<longrightarrow> truthy (py_get data ''candle_type'' PNone))"
proof -
  from assms have t: "is_number (py_get data ''rsi_4h'' PNone)"
      "is_number (py_get data ''rsi_daily'' PNone)"
      "is_label (py_get data ''candle_type'' PNone)" "is_label (py_get data ''pattern'' PNone)"
    by (simp_all add: well_typed_def)
  from t(1) obtain r4 x4 where r4: "py_getitem data ''rsi_4h'' = Inr r4" "as_num r4 = Inr x4"
    by (rule is_numberE)
  from t(2) obtain rd xd where rd: "py_getitem data ''rsi_daily'' = Inr rd" "as_num rd = Inr xd"
    by (rule is_numberE)
  obtain m1 d1 where 1:
    "rsi_confluence trend (truthy (py_get data ''strict_mode'' (PBool False))) r4 = Inr (m1, d1)"
    using rsi_confluence_total [OF r4(2)] by blast
  obtain m2 d2 where 2: "candle_confluence trend (py_get data ''candle_type'' PNone) = Inr (m2, d2)"
    and c: "m2 \<longrightarrow> truthy (py_get data ''candle_type'' PNone)"
    using candle_confluence_total [OF t(3)] by blast
  obtain m3 d3 where 3: "pattern_confluence trend (py_get data ''pattern'' PNone)
      (py_get data ''divergence'' (PBool False)) = Inr (m3, d3)"
    using pattern_confluence_total [OF t(4)] by blast
  obtain m4 d4 where 4: "trend_confluence trend rd = Inr (m4, d4)"
    using trend_confluence_total [OF rd(2)] by blast
  show ?thesis
    using c by (simp add: confluence_analysis_def r4 rd 1 2 3 4)
qed

lemma sl_distance_total:
  assumes "well_typed data" "as_num ep = Inr e"
  shows "\<exists>sl. sl_distance data direction ep = Inr sl"
proof -
  from assms(1) have a: "is_number (py_get data ''atr'' PNone)"
    and lo: "data ''recent_swing_low'' = None \<or> data ''recent_swing_low'' = Some PNone \<or>
       is_number (py_get data ''recent_swing_low'' PNone)"
    and hi: "data ''recent_swing_high'' = None \<or> data ''recent_swing_high'' = Some PNone \<or>
       is_number (py_get data ''recent_swing_high'' PNone)"
    by (simp_all add: well_typed_def)
  from a obtain av ax where av: "py_getitem data ''atr'' = Inr av" "as_num av = Inr ax"
    by (rule is_numberE)
  have l: "py_get data ''recent_swing_low'' PNone \<noteq> PNone \<Longrightarrow>
      \<exists>d. py_sub ep (py_get data ''recent_swing_low'' PNone) = Inr d"
    using lo assms(2)
    by (auto simp: py_sub_def py_get_def is_number_def as_num_def split: option.splits)
  have h: "py_get data ''recent_swing_high'' PNone \<noteq> PNone \<Longrightarrow>
      \<exists>d. py_sub (py_get data ''recent_swing_high'' PNone) ep = Inr d"
    using hi assms(2)
    by (auto simp: py_sub_def py_get_def is_number_def as_num_def split: option.splits)
  show ?thesis
    using l h by (auto simp: sl_distance_def av Let_def)
qed

lemma confidence_scoring_total:
  assumes "well_typed data" "cm \<longrightarrow> truthy (py_get data ''candle_type'' PNone)"
  shows "\<exists>cs. confidence_scoring data trend n cm = Inr cs"
proof -
  from assms(1) have t: "is_number (py_get data ''rsi_daily'' PNone)"
      "is_label (py_get data ''candle_type'' PNone)"
    by (simp_all add: well_typed_def)
  from t(1) obtain rd xd where rd: "py_getitem data ''rsi_daily'' = Inr rd" "as_num rd = Inr xd"
    by (rule is_numberE)
  have "\<exists>c. candle_score cm (py_get data ''candle_type'' PNone) = Inr c"
  proof (cases cm)
    case True
    with assms(2) have tr: "truthy (py_get data ''candle_type'' PNone)" by simp
    with t(2) obtain s where "as_str (py_get data ''candle_type'' PNone) = Inr s"
      using is_label_truthy by blast
    with True tr show ?thesis by (simp add: candle_score_def)
  next
    case False
    then show ?thesis by (simp add: candle_score_def)
  qed
  then obtain c where "candle_score cm (py_get data ''candle_type'' PNone) = Inr c" ..
  then show ?thesis by (simp add: confidence_scoring_def rd Let_def)
qed


lemma risk_levels_total:
  assumes "direction = ''long'' \<or> direction = ''short''" "sl \<noteq> 0"
  shows "\<exists>lv. risk_levels direction e sl = Inr lv"
  using assms by (auto simp: risk_levels_def Let_def)

lemma signal_decision_total:
  assumes wt: "well_typed data" and cm: "cm \<longrightarrow> truthy (py_get data ''candle_type'' PNone)"
    and trend: "trend = ''bullish'' \<or> trend = ''bearish''"
    and atr: "data ''atr'' = Some a" "num_of a = Some x" "0 < x"
  shows "\<exists>r. signal_decision frepr data trend n ds cm = Inr r"
proof -
  from trend obtain direction where d: "signal_direction trend = Inr direction"
    and dir: "direction = ''long'' \<or> direction = ''short''"
    by (auto simp: signal_direction_def)
  from wt have "is_number (py_get data ''close'' PNone)" by (simp add: well_typed_def)
  then obtain ep e where ep: "py_getitem data ''close'' = Inr ep" "as_num ep = Inr e"
    by (rule is_numberE)
  obtain sl where sl: "sl_distance data direction ep = Inr sl"
    using sl_distance_total [OF wt ep(2)] by blast
  from sl_distance_ge_atr [OF sl atr(1,2)] atr(3) have "sl \<noteq> 0" by simp
  with dir obtain lv where lv: "risk_levels direction e sl = Inr lv"
    using risk_levels_total by blast
  obtain conf ts cs where cs: "confidence_scoring data trend n cm = Inr (conf, ts, cs)"
    using confidence_scoring_total [OF wt cm] by (metis prod_cases3)
  show ?thesis
    by (simp add: signal_decision_def d ep sl lv cs)
qed

lemma evaluate_valid_total:
  assumes wt: "well_typed data" and atr: "data ''atr'' = Some a" "num_of a = Some x" "0 < x"
  shows "\<exists>r. evaluate_valid frepr data = Inr r"
proof -
  from wt have "is_number (py_get data ''close'' PNone)"
      "is_number (py_get data ''ema50_daily'' PNone)"
    by (simp_all add: well_typed_def)
  then obtain cl c em m where cl: "py_getitem data ''close'' = Inr cl" "num_of cl = Some c"
    and em: "py_getitem data ''ema50_daily'' = Inr em" "num_of em = Some m"
    by (elim is_numberE)
  define trend where "trend = (if m < c then ''bullish'' else ''bearish'')"
  have tf: "trend_filter cl em = Inr trend"
    using cl(2) em(2) by (simp add: trend_filter_def py_gt_def trend_def)
  have tr: "trend = ''bullish'' \<or> trend = ''bearish''"
    by (simp add: trend_def)
  obtain n ds cm where ca: "confluence_analysis data trend = Inr (n, ds, cm)"
    and cm: "cm \<longrightarrow> truthy (py_get data ''candle_type'' PNone)"
    using confluence_analysis_total [OF wt] by blast
  from signal_decision_total [OF wt cm tr atr]
  obtain r where "signal_decision frepr data trend n ds cm = Inr r" by blast
  then show ?thesis
    by (simp add: evaluate_valid_def cl em tf ca)
qed

lemma validated_timeframe:
  assumes "missing_fields data = []"
  shows "\<exists>v. py_getitem data ''timeframe'' = Inr v"
proof -
  from assms have "\<forall>k \<in> set required_fields. data k \<noteq> None"
    by (simp add: missing_fields_def filter_empty_conv)
  then have "data ''timeframe'' \<noteq> None"
    by (simp add: required_fields_def)
  then show ?thesis by (auto simp: py_getitem_def)
qed

section \<open>Exceptions\<close>

text \<open>
  Claim C1 says that \<^verbatim>\<open>evaluate_signal\<close> never raises, in particular on a validated
  input with ATR 0 and no swing level. On that input the stop-loss distance is 0 and the
  quotient \<^verbatim>\<open>tp_distance / sl_distance\<close> raises ZeroDivisionError before the final risk
  check, which would have abstained with \<^verbatim>\<open>invalid_risk_parameters\<close>, is reached.
\<close>

theorem zero_atr_raises: "evaluate_signal frepr zero_atr_input = Inl ZeroDivisionError"
  by code_simp

text \<open>
  With a negative ATR the same path reaches the final risk check, which abstains.
\<close>

lemma negative_atr_invalid_risk:
  "evaluate_signal frepr negative_atr_input =
     Inr \<lparr> status = ''no_trade'', reason = ''invalid_risk_parameters'',
           entry = None, stop_loss = None, take_profit = None, rrr = None,
           confidence = 100.0,
           message = ''Invalid SL/TP positioning for long trade'',
           instrument = PStr ''EURUSD'', timeframe = PStr ''4H'',
           timestamp = PStr ''2024-01-15T10:00:00Z'' \<rparr>"
  by code_simp

text \<open>
  On inputs of the types of the request schema whose ATR is positive the evaluator raises
  nothing, and the status and the reason of every result it returns are among those the
  specification lists.
\<close>

lemma evaluate_signal_returns:
  assumes wt: "well_typed data" and atr: "data ''atr'' = Some a" "num_of a = Some x" "0 < x"
  shows "\<exists>r. evaluate_signal frepr data = Inr r"
proof (cases "missing_fields data = []")
  case False
  then show ?thesis by (simp add: evaluate_signal_def)
next
  case m: True
  show ?thesis
  proof (cases "none_fields data = []")
    case False
    with m show ?thesis by (simp add: evaluate_signal_def)
  next
    case n: True
    from validated_timeframe [OF m] obtain v where v: "py_getitem data ''timeframe'' = Inr v" ..
    from evaluate_valid_total [OF wt atr] obtain r where "evaluate_valid frepr data = Inr r" ..
    with m n v show ?thesis by (simp add: evaluate_signal_def)
  qed
qed

lemma result_reason_codes:
  assumes "evaluate_signal frepr data = Inr r"
  shows "status r = ''no_trade'' \<and>
           (reason r = ''data_invalid'' \<or> reason r = ''preconditions_not_met'' \<or>
            reason r = ''not_enough_confluences'' \<or> reason r = ''confidence_too_low'' \<or>
            reason r = ''invalid_risk_parameters'') \<or>
         (status r = ''long'' \<or> status r = ''short'') \<and> reason r = ''all_conditions_met''"
  using assms
proof (rule evaluate_signal_InrE)
  fix trend direction n details conf ep e sl lv
  assume d: "signal_direction trend = Inr direction"
    and r: "r = final_decision data trend direction n details conf lv"
  obtain e' s t q where lv': "lv = (e', s, t, q)" by (cases lv)
  from d have dir: "direction = ''long'' \<or> direction = ''short''"
    by (rule signal_direction_Inr)
  from r [unfolded lv'] dir show ?thesis
  proof (rule final_decisionE)
    fix msg assume "r = no_trade ''invalid_risk_parameters'' conf msg data"
    then show ?thesis by simp
  next
    assume "status r = direction" "reason r = ''all_conditions_met''"
    with dir show ?thesis by simp
  qed
qed simp_all

section \<open>Field presence\<close>

text \<open>
  Claim C2 counts the timestamp among the required fields. The list \<^verbatim>\<open>required_fields\<close>
  of the source does not hold it: the example without its timestamp is still accepted,
  and the result carries \<^verbatim>\<open>None\<close> as its timestamp.
\<close>

theorem no_timestamp_accepted:
  "no_timestamp_input ''timestamp'' = None \<and>
   evaluate_signal sample_repr no_timestamp_input =
     Inr \<lparr> status = ''long'', reason = ''all_conditions_met'',
       entry = Some 1.0850, stop_loss = Some 1.0820, take_profit = Some 1.0910,
       rrr = Some 2.0, confidence = 100.0,
       message = ''Trend: BULLISH | Signal: LONG | Confluences (4/4): RSI 4H oversold: 18.50; Bullish candle pattern: hammer; Bullish pattern: double_bottom; Price/RSI divergence detected; Daily trend aligned (RSI Daily: 45.20)'',
       instrument = PStr ''EURUSD'', timeframe = PStr ''4H'',
       timestamp = PNone \<rparr>"
  by code_simp

text \<open>
  Claim C2, amended. Whenever one of the nine fields of \<^verbatim>\<open>required_fields\<close> (instrument,
  timeframe, close, high, low, rsi_4h, rsi_daily, atr, ema50_daily) is absent from the
  input, the evaluator returns \<^verbatim>\<open>no_trade\<close> with reason \<^verbatim>\<open>data_invalid\<close> and the message
  \<^verbatim>\<open>Missing required fields:\<close> followed by the absent fields, joined by a comma and a
  space, in the order of the list.
\<close>

theorem missing_required_field_data_invalid:
  assumes "field \<in> set required_fields" "data field = None"
  shows "evaluate_signal frepr data =
     Inr \<lparr> status = ''no_trade'', reason = ''data_invalid'',
           entry = None, stop_loss = None, take_profit = None, rrr = None,
           confidence = 0,
           message = ''Missing required fields: '' @ join '', '' (missing_fields data),
           instrument = py_get data ''instrument'' PNone,
           timeframe = py_get data ''timeframe'' PNone,
           timestamp = py_get data ''timestamp'' PNone \<rparr>"
proof -
  from assms have "field \<in> set (missing_fields data)"
    by (simp add: missing_fields_def)
  then have "missing_fields data \<noteq> []" by auto
  then show ?thesis by (simp add: evaluate_signal_def no_trade_def)
qed

theorem missing_required_field_witness:
  "''high'' \<in> set required_fields \<and> no_high_atr_input ''high'' = None \<and>
   evaluate_signal sample_repr no_high_atr_input =
     Inr \<lparr> status = ''no_trade'', reason = ''data_invalid'',
           entry = None, stop_loss = None, take_profit = None, rrr = None,
           confidence = 0,
           message = ''Missing required fields: high, atr'',
           instrument = PStr ''EURUSD'', timeframe = PStr ''4H'',
           timestamp = PStr ''2024-01-15T10:00:00Z'' \<rparr>"
proof -
  have 1: "''high'' \<in> set required_fields" by (simp add: required_fields_def)
  have 2: "no_high_atr_input ''high'' = None" by (simp add: no_high_atr_input_def)
  from missing_required_field_data_invalid [where field = "''high''" and data = no_high_atr_input and frepr = sample_repr, OF 1 2]
  have "evaluate_signal sample_repr no_high_atr_input =
     Inr \<lparr> status = ''no_trade'', reason = ''data_invalid'',
           entry = None, stop_loss = None, take_profit = None, rrr = None,
           confidence = 0,
           message = ''Missing required fields: high, atr'',
           instrument = PStr ''EURUSD'', timeframe = PStr ''4H'',
           timestamp = PStr ''2024-01-15T10:00:00Z'' \<rparr>"
    unfolding no_high_atr_lookups by simp
  with 1 2 show ?thesis by (intro conjI)
qed

section \<open>The final risk check\<close>




section \<open>The risk-reward ratio\<close>



section \<open>The end-to-end example\<close>

text \<open>
  Claim C5. On the documented example (EURUSD, 4H, close 1.0850, daily EMA 1.0800,
  4H RSI 18.5, daily RSI 45.2, ATR 0.0025, a hammer candle, a double bottom, a divergence
  and a recent swing low at 1.0820) the evaluator returns a long signal with reason
  \<^verbatim>\<open>all_conditions_met\<close>, entry 1.0850, stop loss 1.0820, take profit 1.0910, a
  risk-reward ratio of 2.0 and confidence 100.0: four confluences out of four, and the
  component scores 25, 20, 20, 20 and 15.
\<close>

theorem eurusd_example_long:
  "evaluate_signal frepr eurusd_example =
     Inr \<lparr> status = ''long'', reason = ''all_conditions_met'',
           entry = Some 1.0850, stop_loss = Some 1.0820, take_profit = Some 1.0910,
           rrr = Some 2.0, confidence = 100.0,
           message = ''Trend: BULLISH | Signal: LONG | Confluences (4/4): RSI 4H oversold: 18.50; Bullish candle pattern: hammer; Bullish pattern: double_bottom; Price/RSI divergence detected; Daily trend aligned (RSI Daily: 45.20)'',
           instrument = PStr ''EURUSD'', timeframe = PStr ''4H'',
           timestamp = PStr ''2024-01-15T10:00:00Z'' \<rparr> \<and>
   confluence_analysis eurusd_example ''bullish'' =
     Inr (4, [''RSI 4H oversold: 18.50'', ''Bullish candle pattern: hammer'',
              ''Bullish pattern: double_bottom'', ''Price/RSI divergence detected'',
              ''Daily trend aligned (RSI Daily: 45.20)''], True) \<and>
   sl_distance eurusd_example ''long'' (PFloat 1.0850) = Inr 0.0030 \<and>
   confluence_percentage 4 = 25 \<and>
   trend_score ''bullish'' 45.2 = 20 \<and>
   level_quality_score = 20 \<and>
   candle_score True (PStr ''hammer'') = Inr 20 \<and>
   market_conditions_score = 15"
  by code_simp

section \<open>The risk fields\<close>

text \<open>
  Claim C7. In every result the four fields entry, stop loss, take profit and
  risk-reward ratio are all absent or all present, and they are present exactly when the
  status is not \<^verbatim>\<open>no_trade\<close>.
\<close>

theorem risk_fields_all_or_none:
  assumes "evaluate_signal frepr data = Inr r"
  shows "(entry r = None \<and> stop_loss r = None \<and> take_profit r = None \<and> rrr r = None \<and>
          status r = ''no_trade'') \<or>
         (entry r \<noteq> None \<and> stop_loss r \<noteq> None \<and> take_profit r \<noteq> None \<and> rrr r \<noteq> None \<and>
          status r \<noteq> ''no_trade'')"
  using assms
proof (rule evaluate_signal_InrE)
  fix trend direction n details conf ep e sl lv
  assume d: "signal_direction trend = Inr direction"
    and lv: "risk_levels direction e sl = Inr lv"
    and r: "r = final_decision data trend direction n details conf lv"
  obtain e' s t q where lv': "lv = (e', s, t, q)" by (cases lv)
  from d have dir: "direction = ''long'' \<or> direction = ''short''"
    by (rule signal_direction_Inr)
  from r [unfolded lv'] dir show ?thesis
  proof (rule final_decisionE)
    fix msg assume "r = no_trade ''invalid_risk_parameters'' conf msg data"
    then show ?thesis by simp
  next
    assume "status r = direction" "entry r = Some e'" "stop_loss r = Some s"
      "take_profit r = Some t" "rrr r = Some q"
    with dir show ?thesis by auto
  qed
qed simp_all

theorem risk_fields_witness:
  "evaluate_signal sample_repr eurusd_example = Inr eurusd_result \<and>
   entry eurusd_result \<noteq> None \<and> stop_loss eurusd_result \<noteq> None \<and>
   take_profit eurusd_result \<noteq> None \<and> rrr eurusd_result \<noteq> None \<and>
   status eurusd_result \<noteq> ''no_trade''"
  using risk_fields_all_or_none [OF eurusd_example_result [of sample_repr]]
  by (simp add: eurusd_example_result eurusd_result_def)

section \<open>The confluence gate\<close>

text \<open>
  Claim C6 gives the message of the confluence gate as
  \<^verbatim>\<open>"{count}/4 confluences met. Need at least 3. Met: {details}"\<close>. The f-string of the
  source starts with \<^verbatim>\<open>Only\<close>: on the example with no confluence met the two differ.
\<close>

theorem no_confluence_message_differs:
  "confluence_analysis no_confluence_input ''bullish'' = Inr (0, [], False) \<and>
   evaluate_signal sample_repr no_confluence_input =
     Inr \<lparr> status = ''no_trade'', reason = ''not_enough_confluences'',
           entry = None, stop_loss = None, take_profit = None, rrr = None,
           confidence = 0,
           message = ''Only 0/4 confluences met. Need at least 3. Met: None'',
           instrument = PStr ''EURUSD'', timeframe = PStr ''4H'',
           timestamp = PStr ''2024-01-15T10:00:00Z'' \<rparr> \<and>
   spec_confluence_message 0 [] = ''0/4 confluences met. Need at least 3. Met: None'' \<and>
   ''Only 0/4 confluences met. Need at least 3. Met: None'' \<noteq> spec_confluence_message 0 []"
  by code_simp

text \<open>
  Claim C6, amended. For every validated input whose confluence count is less than 3,
  the evaluator returns \<^verbatim>\<open>no_trade\<close> with reason \<^verbatim>\<open>not_enough_confluences\<close> and the
  message \<^verbatim>\<open>"Only {count}/4 confluences met. Need at least 3. Met: {details}"\<close>, where the
  details are the detail strings of the satisfied confluences joined with \<^verbatim>\<open>"; "\<close> in
  evaluation order, or \<^verbatim>\<open>None\<close> when no confluence is satisfied.
\<close>

theorem not_enough_confluences_message:
  assumes valid: "missing_fields data = []" "none_fields data = []"
      "data ''timeframe'' = Some (PStr ''4H'')"
    and trend: "data ''close'' = Some close" "data ''ema50_daily'' = Some ema50_daily"
      "trend_filter close ema50_daily = Inr trend"
    and conf: "confluence_analysis data trend = Inr (n, details, candle_met)" "n < 3"
  shows "evaluate_signal frepr data =
     Inr \<lparr> status = ''no_trade'', reason = ''not_enough_confluences'',
           entry = None, stop_loss = None, take_profit = None, rrr = None,
           confidence = 0,
           message = ''Only '' @ show_nat n @ ''/4 confluences met. Need at least 3. Met: '' @
             (if n = 0 then ''None'' else join ''; '' details),
           instrument = py_get data ''instrument'' PNone,
           timeframe = py_get data ''timeframe'' PNone,
           timestamp = py_get data ''timestamp'' PNone \<rparr>"
proof -
  have "evaluate_signal frepr data = evaluate_valid frepr data"
    using valid by (simp add: evaluate_signal_def py_getitem_def)
  also have "\<dots> = Inr (no_trade ''not_enough_confluences'' 0 (confluence_message n details) data)"
    using trend conf by (simp add: evaluate_valid_def py_getitem_def)
  finally show ?thesis
    using confluence_analysis_details [OF conf(1)]
    by (simp add: no_trade_def confluence_message_def)
qed

theorem not_enough_confluences_witness:
  "missing_fields two_confluence_input = [] \<and> none_fields two_confluence_input = [] \<and>
   two_confluence_input ''timeframe'' = Some (PStr ''4H'') \<and>
   confluence_analysis two_confluence_input ''bullish'' =
     Inr (2, [''Bullish pattern: double_bottom'', ''Price/RSI divergence detected'',
              ''Daily trend aligned (RSI Daily: 45.20)''], False) \<and>
   evaluate_signal sample_repr two_confluence_input =
     Inr \<lparr> status = ''no_trade'', reason = ''not_enough_confluences'',
           entry = None, stop_loss = None, take_profit = None, rrr = None,
           confidence = 0,
           message = ''Only 2/4 confluences met. Need at least 3. Met: Bullish pattern: double_bottom; Price/RSI divergence detected; Daily trend aligned (RSI Daily: 45.20)'',
           instrument = PStr ''EURUSD'', timeframe = PStr ''4H'',
           timestamp = PStr ''2024-01-15T10:00:00Z'' \<rparr>"
proof -
  have "(2::nat) < 3" by simp
  from not_enough_confluences_message [where frepr = sample_repr,
      OF two_confluence_lookups(1-7) this]
  have "evaluate_signal sample_repr two_confluence_input =
     Inr \<lparr> status = ''no_trade'', reason = ''not_enough_confluences'',
           entry = None, stop_loss = None, take_profit = None, rrr = None,
           confidence = 0,
           message = ''Only 2/4 confluences met. Need at least 3. Met: Bullish pattern: double_bottom; Price/RSI divergence detected; Daily trend aligned (RSI Daily: 45.20)'',
           instrument = PStr ''EURUSD'', timeframe = PStr ''4H'',
           timestamp = PStr ''2024-01-15T10:00:00Z'' \<rparr>"
    unfolding two_confluence_lookups by simp
  with two_confluence_lookups(1,2,3,7) show ?thesis by (intro conjI)
qed

section \<open>The trend\<close>

text \<open>
  Claim C8. On numeric close and daily EMA the trend filter always returns a trend:
  \<^verbatim>\<open>bullish\<close> exactly when the close is strictly greater than the EMA, and \<^verbatim>\<open>bearish\<close>
  otherwise, in particular when the two are equal.
\<close>

theorem trend_classification:
  assumes "num_of close = Some c" "num_of ema50_daily = Some m"
  shows "trend_filter close ema50_daily = Inr (if m < c then ''bullish'' else ''bearish'')"
  using assms by (simp add: trend_filter_def py_gt_def)

theorem trend_classification_witness:
  "num_of (PFloat 1.0800) = Some 1.0800 \<and>
   trend_filter (PFloat 1.0800) (PFloat 1.0800) = Inr ''bearish'' \<and>
   trend_filter (PFloat 1.0850) (PFloat 1.0800) = Inr ''bullish''"
proof -
  have 1: "num_of (PFloat 1.0800) = Some 1.0800" and 2: "num_of (PFloat 1.0850) = Some 1.0850"
    by simp_all
  show ?thesis
    using trend_classification [OF 1 1] trend_classification [OF 2 1] by simp
qed

section \<open>Determinism and independence\<close>



text \<open>
  Claim C10. The output does not depend on the values of high and low: replacing the
  two values, present and not \<^verbatim>\<open>None\<close>, by any others that are not \<^verbatim>\<open>None\<close> leaves the
  result unchanged.
\<close>

theorem evaluate_signal_ignores_high_low:
  assumes "x ''high'' = Some h" "h \<noteq> PNone" "x ''low'' = Some l" "l \<noteq> PNone"
    and "h' \<noteq> PNone" "l' \<noteq> PNone"
  shows "evaluate_signal frepr (x(''high'' \<mapsto> h', ''low'' \<mapsto> l')) = evaluate_signal frepr x"
  using assms by (intro evaluate_signal_cong) simp_all

theorem evaluate_signal_ignores_high_low_witness:
  "eurusd_example ''high'' = Some (PFloat 1.0865) \<and> eurusd_example ''low'' = Some (PFloat 1.0835) \<and>
   evaluate_signal sample_repr (eurusd_example(''high'' \<mapsto> PFloat 2, ''low'' \<mapsto> PInt 1)) =
     evaluate_signal sample_repr eurusd_example"
proof -
  have h: "eurusd_example ''high'' = Some (PFloat 1.0865)"
    and l: "eurusd_example ''low'' = Some (PFloat 1.0835)"
    by (simp_all add: eurusd_example_def)
  have ne: "PFloat 1.0865 \<noteq> PNone" "PFloat 1.0835 \<noteq> PNone" "PFloat 2 \<noteq> PNone" "PInt 1 \<noteq> PNone"
    by simp_all
  from evaluate_signal_ignores_high_low [OF h ne(1) l ne(2) ne(3) ne(4), where frepr = sample_repr]
    h l
  show ?thesis by (intro conjI)
qed

end
